theory Spec2Isabelle
  imports Main
begin

section \<open>The compile-option lister: \<^verbatim>\<open>python/sqlite/list_compile_options.py\<close>\<close>

text \<open>
  The script opens an in-memory SQLite connection, runs \<^verbatim>\<open>PRAGMA compile_options;\<close>,
  fetches every row and prints field 0 of each row, then closes the connection.
  The database driver is not part of the repository: what it answers is a parameter
  of the model (the record \<open>engine\<close>). Everything the script does to the outside is
  recorded, in order, in a trace of events; standard output, the error stream and the
  number of releases are read off that trace.
\<close>

subsection \<open>Values, rows and exceptions\<close>

text \<open>
  A row is the tuple the driver hands back; a field is one of the Python values the
  driver produces for TEXT, INTEGER and NULL columns (REAL and BLOB columns are left
  out of the model). A tuple may have any number of fields, also none.
\<close>

datatype field = Text string | Integer int | Null

type_synonym row = "field list"

text \<open>
  The exceptions that can reach the script: the driver's \<^verbatim>\<open>sqlite3.Error\<close> family (with
  its message) and the \<^verbatim>\<open>IndexError\<close> of a tuple subscript.
\<close>

datatype py_error = Sqlite3Error string | IndexError

subsection \<open>The world outside the script\<close>

datatype event =
    EvConnect string
  | EvCursor
  | EvExecute string
  | EvFetchall
  | EvPrint string
  | EvClose
  | EvTraceback py_error

text \<open>
  The driver's answers: \<open>connect_response db\<close> is \<open>Some msg\<close> when opening \<open>db\<close> raises,
  \<open>execute_response sql\<close> is \<open>Inl msg\<close> when the statement raises and \<open>Inr rows\<close> when it
  yields \<open>rows\<close>. These are the two failures of the driver the model has; the calls
  \<^verbatim>\<open>cursor()\<close>, \<^verbatim>\<open>fetchall()\<close>, \<^verbatim>\<open>close()\<close> and \<^verbatim>\<open>print\<close> are taken to return normally.
\<close>

record engine =
  connect_response :: "string \<Rightarrow> string option"
  execute_response :: "string \<Rightarrow> string + row list"

text \<open>
  The state threaded through the script: the events so far and the result set the
  cursor holds between \<^verbatim>\<open>execute\<close> and \<^verbatim>\<open>fetchall\<close>.
\<close>

record world =
  trace :: "event list"
  pending :: "row list"

definition init_world :: world where
  "init_world = \<lparr>trace = [], pending = []\<rparr>"

definition emit :: "event \<Rightarrow> world \<Rightarrow> world" where
  "emit e w = w\<lparr>trace := trace w @ [e]\<rparr>"

datatype connection = Connection string

datatype cursor = Cursor connection

subsection \<open>The driver calls and the built-ins the script uses\<close>

definition sqlite3_connect :: "engine \<Rightarrow> string \<Rightarrow> world \<Rightarrow> (py_error + connection) \<times> world" where
  "sqlite3_connect eng db w =
     (case connect_response eng db of
        Some msg \<Rightarrow> (Inl (Sqlite3Error msg), emit (EvConnect db) w)
      | None \<Rightarrow> (Inr (Connection db), emit (EvConnect db) w))"

definition conn_cursor :: "connection \<Rightarrow> world \<Rightarrow> cursor \<times> world" where
  "conn_cursor conn w = (Cursor conn, emit EvCursor w)"

definition cursor_execute :: "engine \<Rightarrow> cursor \<Rightarrow> string \<Rightarrow> world \<Rightarrow> (py_error + unit) \<times> world" where
  "cursor_execute eng cur sql w =
     (case execute_response eng sql of
        Inl msg \<Rightarrow> (Inl (Sqlite3Error msg), (emit (EvExecute sql) w)\<lparr>pending := []\<rparr>)
      | Inr rows \<Rightarrow> (Inr (), (emit (EvExecute sql) w)\<lparr>pending := rows\<rparr>))"

definition cursor_fetchall :: "cursor \<Rightarrow> world \<Rightarrow> row list \<times> world" where
  "cursor_fetchall cur w = (pending w, (emit EvFetchall w)\<lparr>pending := []\<rparr>)"

definition conn_close :: "connection \<Rightarrow> world \<Rightarrow> world" where
  "conn_close conn w = emit EvClose w"

text \<open>\<^verbatim>\<open>t[i]\<close> on a tuple, for an index that is not negative.\<close>

definition row_getitem :: "row \<Rightarrow> nat \<Rightarrow> py_error + field" where
  "row_getitem r i = (if i < length r then Inr (r ! i) else Inl IndexError)"

text \<open>Python's \<^verbatim>\<open>str\<close> of an integer: decimal digits, a minus sign when negative.\<close>

definition digit_char :: "nat \<Rightarrow> char" where
  "digit_char d = char_of (48 + d)"

fun str_nat :: "nat \<Rightarrow> string" where
  "str_nat n = (if n < 10 then [digit_char n] else str_nat (n div 10) @ [digit_char (n mod 10)])"

declare str_nat.simps [simp del]

definition str_int :: "int \<Rightarrow> string" where
  "str_int i = (if i < 0 then CHR ''-'' # str_nat (nat (- i)) else str_nat (nat i))"

text \<open>The f-string \<^verbatim>\<open>f"{v}"\<close>: the value formatted with an empty format spec.\<close>

fun py_format :: "field \<Rightarrow> string" where
  "py_format (Text s) = s"
| "py_format (Integer i) = str_int i"
| "py_format Null = ''None''"

text \<open>
  \<^verbatim>\<open>print(s)\<close> writes the characters of \<open>s\<close> and then one newline character to standard
  output. The event keeps the argument of the call; the characters written are read off
  the trace by \<open>stdout_text_of\<close> below. A text that itself holds a newline is one call
  of \<^verbatim>\<open>print\<close> and more than one line of output.
\<close>

definition newline :: char where
  "newline = CHR 0x0A"

definition py_print :: "string \<Rightarrow> world \<Rightarrow> world" where
  "py_print s w = emit (EvPrint s) w"

subsection \<open>The script\<close>

text \<open>
  \<^verbatim>\<open>
  def get_compile_options(cursor):
      cursor.execute("PRAGMA compile_options;")
      return cursor.fetchall()
  \<close>
\<close>

definition get_compile_options :: "engine \<Rightarrow> cursor \<Rightarrow> world \<Rightarrow> (py_error + row list) \<times> world" where
  "get_compile_options eng cur w =
     (case cursor_execute eng cur ''PRAGMA compile_options;'' w of
        (Inl e, w1) \<Rightarrow> (Inl e, w1)
      | (Inr _, w1) \<Rightarrow> (case cursor_fetchall cur w1 of (rows, w2) \<Rightarrow> (Inr rows, w2)))"

text \<open>
  The loop \<^verbatim>\<open>for option in options_list: print(f"{option[0]}")\<close>. The subscript is
  evaluated before the call of \<^verbatim>\<open>print\<close>; when it raises, the loop is left at once.
\<close>

fun print_each :: "row list \<Rightarrow> world \<Rightarrow> (py_error + unit) \<times> world" where
  "print_each [] w = (Inr (), w)"
| "print_each (option # rest) w =
     (case row_getitem option 0 of
        Inl e \<Rightarrow> (Inl e, w)
      | Inr v \<Rightarrow> print_each rest (py_print (py_format v) w))"

text \<open>
  \<^verbatim>\<open>
  def main():
      conn = sqlite3.connect(":memory:")
      cursor = conn.cursor()
      options_list = get_compile_options(cursor)
      for option in options_list:
          print(f"{option[0]}")
      conn.close()
  \<close>
  There is no \<^verbatim>\<open>try\<close>, \<^verbatim>\<open>with\<close> or \<^verbatim>\<open>finally\<close>: an exception leaves \<open>main\<close> at the call
  that raised it.
\<close>

definition main :: "engine \<Rightarrow> world \<Rightarrow> (py_error + unit) \<times> world" where
  "main eng w =
     (case sqlite3_connect eng '':memory:'' w of
        (Inl e, w1) \<Rightarrow> (Inl e, w1)
      | (Inr conn, w1) \<Rightarrow>
          (case conn_cursor conn w1 of
             (cur, w2) \<Rightarrow>
               (case get_compile_options eng cur w2 of
                  (Inl e, w3) \<Rightarrow> (Inl e, w3)
                | (Inr options_list, w3) \<Rightarrow>
                    (case print_each options_list w3 of
                       (Inl e, w4) \<Rightarrow> (Inl e, w4)
                     | (Inr _, w4) \<Rightarrow> (Inr (), conn_close conn w4)))))"

text \<open>
  The module body, \<^verbatim>\<open>if __name__ == "__main__": main()\<close>. The argument vector of the
  process is there, and nothing reads it.
\<close>

definition module_body :: "string \<Rightarrow> string list \<Rightarrow> engine \<Rightarrow> world \<Rightarrow> (py_error + unit) \<times> world" where
  "module_body name argv eng w = (if name = ''__main__'' then main eng w else (Inr (), w))"

text \<open>
  Running the file as a script: the interpreter executes the module under the name
  \<^verbatim>\<open>__main__\<close>; an exception that nothing catches is reported on the error stream and
  the exit status is 1, otherwise the exit status is 0.
\<close>

definition run_script :: "string list \<Rightarrow> engine \<Rightarrow> nat \<times> world" where
  "run_script argv eng =
     (case module_body ''__main__'' argv eng init_world of
        (Inl e, w) \<Rightarrow> (1, emit (EvTraceback e) w)
      | (Inr _, w) \<Rightarrow> (0, w))"

subsection \<open>What an observer sees of a run\<close>

fun stdout_of :: "event list \<Rightarrow> string list" where
  "stdout_of [] = []"
| "stdout_of (EvPrint s # tr) = s # stdout_of tr"
| "stdout_of (_ # tr) = stdout_of tr"

fun stderr_of :: "event list \<Rightarrow> py_error list" where
  "stderr_of [] = []"
| "stderr_of (EvTraceback e # tr) = e # stderr_of tr"
| "stderr_of (_ # tr) = stderr_of tr"

definition exit_status :: "string list \<Rightarrow> engine \<Rightarrow> nat" where
  "exit_status argv eng = fst (run_script argv eng)"

definition events :: "string list \<Rightarrow> engine \<Rightarrow> event list" where
  "events argv eng = trace (snd (run_script argv eng))"

definition stdout :: "string list \<Rightarrow> engine \<Rightarrow> string list" where
  "stdout argv eng = stdout_of (events argv eng)"

text \<open>
  \<open>stdout\<close> above is the list of the texts handed to \<^verbatim>\<open>print\<close>, call by call.
  \<open>stdout_text\<close> is standard output as the characters written, each text followed by
  its newline; \<open>stdout_lines\<close> is that text cut into lines at the newline characters
  (characters after the last newline, if any, form a last line).
\<close>

definition stdout_text_of :: "event list \<Rightarrow> string" where
  "stdout_text_of tr = concat (map (\<lambda>s. s @ [newline]) (stdout_of tr))"

fun lines_of :: "string \<Rightarrow> string list" where
  "lines_of [] = []"
| "lines_of (c # cs) =
     (if c = newline then [] # lines_of cs
      else (case lines_of cs of [] \<Rightarrow> [[c]] | l # ls \<Rightarrow> (c # l) # ls))"

definition stdout_text :: "string list \<Rightarrow> engine \<Rightarrow> string" where
  "stdout_text argv eng = stdout_text_of (events argv eng)"

definition stdout_lines :: "string list \<Rightarrow> engine \<Rightarrow> string list" where
  "stdout_lines argv eng = lines_of (stdout_text argv eng)"

definition stderr :: "string list \<Rightarrow> engine \<Rightarrow> py_error list" where
  "stderr argv eng = stderr_of (events argv eng)"

definition releases :: "string list \<Rightarrow> engine \<Rightarrow> nat" where
  "releases argv eng = count_list (events argv eng) EvClose"

subsection \<open>Engines to run the script against\<close>

text \<open>
  An engine that answers \<open>c\<close> when \<^verbatim>\<open>:memory:\<close> is opened and \<open>q\<close> to the one query of
  the script; it refuses every other database name and every other statement.
\<close>

definition engine_of :: "string option \<Rightarrow> string + row list \<Rightarrow> engine" where
  "engine_of c q =
     \<lparr>connect_response =
        (\<lambda>db. if db = '':memory:'' then c else Some ''unable to open database file''),
      execute_response =
        (\<lambda>sql. if sql = ''PRAGMA compile_options;'' then q else Inl ''syntax error'')\<rparr>"

section \<open>Properties\<close>

subsection \<open>Projections of a trace\<close>

lemma stdout_of_append: "stdout_of (xs @ ys) = stdout_of xs @ stdout_of ys"
  by (induction xs rule: stdout_of.induct) simp_all

lemma stderr_of_append: "stderr_of (xs @ ys) = stderr_of xs @ stderr_of ys"
  by (induction xs rule: stderr_of.induct) simp_all

subsection \<open>The calls of the script, one by one\<close>

lemma row_getitem_0: "row_getitem r 0 = (case r of [] \<Rightarrow> Inl IndexError | v # _ \<Rightarrow> Inr v)"
  by (cases r) (simp_all add: row_getitem_def)

text \<open>
  The loop prints field 0 of every row up to the first row without fields, and raises
  there; without such a row it prints all of them.
\<close>

lemma print_each_run:
  "print_each rows w =
     ((if \<forall>r\<in>set rows. r \<noteq> [] then Inr () else Inl IndexError),
      w\<lparr>trace := trace w @ map (\<lambda>r. EvPrint (py_format (hd r))) (takeWhile (\<lambda>r. r \<noteq> []) rows)\<rparr>)"
proof (induction rows arbitrary: w)
  case Nil
  show ?case by simp
next
  case (Cons r rows)
  show ?case
  proof (cases r)
    case Nil
    then show ?thesis by (simp add: row_getitem_0)
  next
    case (Cons v vs)
    then show ?thesis
      by (simp add: row_getitem_0 Cons.IH py_print_def emit_def)
  qed
qed

lemma print_each_first_fields:
  "map (\<lambda>r. row_getitem r 0) rows1 = map (\<lambda>r. row_getitem r 0) rows2
     \<Longrightarrow> print_each rows1 w = print_each rows2 w"
proof (induction rows1 arbitrary: rows2 w)
  case Nil
  then show ?case by simp
next
  case (Cons r rows1)
  then obtain r' rows2' where r2: "rows2 = r' # rows2'"
    by (cases rows2) auto
  with Cons.prems have hd_eq: "row_getitem r 0 = row_getitem r' 0"
    and tl_eq: "map (\<lambda>r. row_getitem r 0) rows1 = map (\<lambda>r. row_getitem r 0) rows2'"
    by simp_all
  show ?case
    by (simp add: r2 hd_eq Cons.IH [OF tl_eq] split: sum.splits)
qed

lemma get_compile_options_fails:
  assumes "execute_response eng ''PRAGMA compile_options;'' = Inl msg"
  shows "get_compile_options eng cur w =
           (Inl (Sqlite3Error msg),
            w\<lparr>trace := trace w @ [EvExecute ''PRAGMA compile_options;''], pending := []\<rparr>)"
  using assms by (simp add: get_compile_options_def cursor_execute_def emit_def)

lemma get_compile_options_rows:
  assumes "execute_response eng ''PRAGMA compile_options;'' = Inr rows"
  shows "get_compile_options eng cur w =
           (Inr rows,
            w\<lparr>trace := trace w @ [EvExecute ''PRAGMA compile_options;'', EvFetchall], pending := []\<rparr>)"
  using assms
  by (simp add: get_compile_options_def cursor_execute_def cursor_fetchall_def emit_def)

lemma main_connect_fails:
  assumes "connect_response eng '':memory:'' = Some msg"
  shows "main eng w = (Inl (Sqlite3Error msg), w\<lparr>trace := trace w @ [EvConnect '':memory:'']\<rparr>)"
  using assms by (simp add: main_def sqlite3_connect_def emit_def)

lemma main_query_fails:
  assumes "connect_response eng '':memory:'' = None"
    and "execute_response eng ''PRAGMA compile_options;'' = Inl msg"
  shows "main eng w =
           (Inl (Sqlite3Error msg),
            w\<lparr>trace := trace w @ [EvConnect '':memory:'', EvCursor, EvExecute ''PRAGMA compile_options;''],
              pending := []\<rparr>)"
  using assms
  by (simp add: main_def sqlite3_connect_def conn_cursor_def get_compile_options_fails emit_def)

lemma main_after_query:
  assumes "connect_response eng '':memory:'' = None"
    and "execute_response eng ''PRAGMA compile_options;'' = Inr rows"
  shows "main eng w =
           (case print_each rows
                   (w\<lparr>trace := trace w @ [EvConnect '':memory:'', EvCursor,
                          EvExecute ''PRAGMA compile_options;'', EvFetchall],
                       pending := []\<rparr>) of
              (Inl e, w4) \<Rightarrow> (Inl e, w4)
            | (Inr u, w4) \<Rightarrow> (Inr (), w4\<lparr>trace := trace w4 @ [EvClose]\<rparr>))"
  using assms
  by (simp add: main_def sqlite3_connect_def conn_cursor_def get_compile_options_rows
      conn_close_def emit_def split: prod.splits sum.splits)

lemma main_rows_good:
  assumes "connect_response eng '':memory:'' = None"
    and "execute_response eng ''PRAGMA compile_options;'' = Inr rows"
    and "\<forall>r\<in>set rows. r \<noteq> []"
  shows "main eng w =
           (Inr (),
            w\<lparr>trace := trace w @ [EvConnect '':memory:'', EvCursor,
                   EvExecute ''PRAGMA compile_options;'', EvFetchall]
                   @ map (\<lambda>r. EvPrint (py_format (hd r))) rows @ [EvClose],
                pending := []\<rparr>)"
proof -
  from assms(3) have tw: "takeWhile (\<lambda>r. r \<noteq> []) rows = rows"
    by (simp add: takeWhile_eq_all_conv)
  show ?thesis
    using assms(3) by (simp add: main_after_query [OF assms(1,2)] print_each_run tw)
qed

lemma main_rows_bad:
  assumes "connect_response eng '':memory:'' = None"
    and "execute_response eng ''PRAGMA compile_options;'' = Inr rows"
    and "\<not> (\<forall>r\<in>set rows. r \<noteq> [])"
  shows "main eng w =
           (Inl IndexError,
            w\<lparr>trace := trace w @ [EvConnect '':memory:'', EvCursor,
                   EvExecute ''PRAGMA compile_options;'', EvFetchall]
                   @ map (\<lambda>r. EvPrint (py_format (hd r))) (takeWhile (\<lambda>r. r \<noteq> []) rows),
                pending := []\<rparr>)"
  using assms(3) by (simp add: main_after_query [OF assms(1,2)] print_each_run)

subsection \<open>The four ways a run can go\<close>

lemma run_connect_fails:
  assumes "connect_response eng '':memory:'' = Some msg"
  shows "run_script argv eng =
           (1, \<lparr>trace = [EvConnect '':memory:'', EvTraceback (Sqlite3Error msg)], pending = []\<rparr>)"
  by (simp add: run_script_def module_body_def main_connect_fails [OF assms] init_world_def emit_def)

lemma run_query_fails:
  assumes "connect_response eng '':memory:'' = None"
    and "execute_response eng ''PRAGMA compile_options;'' = Inl msg"
  shows "run_script argv eng =
           (1, \<lparr>trace = [EvConnect '':memory:'', EvCursor, EvExecute ''PRAGMA compile_options;'',
                          EvTraceback (Sqlite3Error msg)],
                pending = []\<rparr>)"
  by (simp add: run_script_def module_body_def main_query_fails [OF assms] init_world_def emit_def)

lemma run_rows_good:
  assumes "connect_response eng '':memory:'' = None"
    and "execute_response eng ''PRAGMA compile_options;'' = Inr rows"
    and "\<forall>r\<in>set rows. r \<noteq> []"
  shows "run_script argv eng =
           (0, \<lparr>trace = [EvConnect '':memory:'', EvCursor, EvExecute ''PRAGMA compile_options;'',
                          EvFetchall]
                         @ map (\<lambda>r. EvPrint (py_format (hd r))) rows @ [EvClose],
                pending = []\<rparr>)"
  by (simp add: run_script_def module_body_def main_rows_good [OF assms] init_world_def)

lemma run_rows_bad:
  assumes "connect_response eng '':memory:'' = None"
    and "execute_response eng ''PRAGMA compile_options;'' = Inr rows"
    and "\<not> (\<forall>r\<in>set rows. r \<noteq> [])"
  shows "run_script argv eng =
           (1, \<lparr>trace = [EvConnect '':memory:'', EvCursor, EvExecute ''PRAGMA compile_options;'',
                          EvFetchall]
                         @ map (\<lambda>r. EvPrint (py_format (hd r))) (takeWhile (\<lambda>r. r \<noteq> []) rows)
                         @ [EvTraceback IndexError],
                pending = []\<rparr>)"
  by (simp add: run_script_def module_body_def main_rows_bad [OF assms] init_world_def emit_def)

lemma stdout_of_prints: "stdout_of (map (\<lambda>r. EvPrint (f r)) rows) = map f rows"
  by (induction rows) simp_all

lemma stderr_of_prints: "stderr_of (map (\<lambda>r. EvPrint (f r)) rows) = []"
  by (induction rows) simp_all

lemma count_close_prints: "count_list (map (\<lambda>r. EvPrint (f r)) rows) EvClose = 0"
  by (induction rows) simp_all

text \<open>Lines of the text that \<^verbatim>\<open>print\<close> calls write.\<close>

lemma lines_of_line: "newline \<notin> set s \<Longrightarrow> lines_of (s @ newline # rest) = s # lines_of rest"
  by (induction s) auto

lemma lines_of_written:
  "\<forall>s\<in>set ss. newline \<notin> set s \<Longrightarrow> lines_of (concat (map (\<lambda>s. s @ [newline]) ss)) = ss"
  by (induction ss) (simp_all add: lines_of_line)

lemma stdout_text_stdout:
  "stdout_text argv eng = concat (map (\<lambda>s. s @ [newline]) (stdout argv eng))"
  by (simp add: stdout_text_def stdout_text_of_def stdout_def)

lemma count_fetch_prints: "count_list (map (\<lambda>r. EvPrint (f r)) rows) EvFetchall = 0"
  by (induction rows) simp_all

lemma stdout_rows_good:
  assumes "connect_response eng '':memory:'' = None"
    and "execute_response eng ''PRAGMA compile_options;'' = Inr rows"
    and "\<forall>r\<in>set rows. r \<noteq> []"
  shows "stdout argv eng = map (\<lambda>r. py_format (hd r)) rows"
  by (simp add: stdout_def events_def run_rows_good [OF assms] stdout_of_append stdout_of_prints)

lemmas run_obs = exit_status_def events_def stdout_def stderr_def releases_def

lemmas script_defs =
  exit_status_def events_def stdout_def stderr_def releases_def run_script_def module_body_def
  main_def sqlite3_connect_def conn_cursor_def get_compile_options_def cursor_execute_def
  cursor_fetchall_def conn_close_def py_print_def emit_def init_world_def row_getitem_def
  engine_of_def

lemma run_cases:
  obtains (connect_fails) msg where "connect_response eng '':memory:'' = Some msg"
  | (query_fails) msg where "connect_response eng '':memory:'' = None"
      "execute_response eng ''PRAGMA compile_options;'' = Inl msg"
  | (rows_good) rows where "connect_response eng '':memory:'' = None"
      "execute_response eng ''PRAGMA compile_options;'' = Inr rows" "\<forall>r\<in>set rows. r \<noteq> []"
  | (rows_bad) rows where "connect_response eng '':memory:'' = None"
      "execute_response eng ''PRAGMA compile_options;'' = Inr rows" "\<not> (\<forall>r\<in>set rows. r \<noteq> [])"
proof (cases "connect_response eng '':memory:''")
  case (Some msg)
  then show ?thesis by (rule connect_fails)
next
  case None
  show ?thesis
  proof (cases "execute_response eng ''PRAGMA compile_options;''")
    case (Inl msg)
    with None show ?thesis by (rule query_fails)
  next
    case (Inr rows)
    with None show ?thesis
      by (cases "\<forall>r\<in>set rows. r \<noteq> []") (blast intro: rows_good rows_bad)+
  qed
qed

subsection \<open>Release of the connection\<close>

text \<open>
  C1 (as amended). The script closes the connection exactly once on a run that succeeds,
  as its last action, and a run succeeds exactly when the connection opens, the query
  yields rows and every row has a field 0. On every run that fails (exit status not 0),
  a failing query included, the script makes no release call at all: the exception
  leaves \<open>main\<close> before \<^verbatim>\<open>conn.close()\<close>.
\<close>

theorem release_only_on_success:
  "(exit_status argv eng = 0 \<longrightarrow> releases argv eng = 1 \<and> last (events argv eng) = EvClose) \<and>
   (exit_status argv eng \<noteq> 0 \<longrightarrow> releases argv eng = 0) \<and>
   ((exit_status argv eng = 0) =
      (connect_response eng '':memory:'' = None \<and>
       (\<exists>rows. execute_response eng ''PRAGMA compile_options;'' = Inr rows \<and>
               (\<forall>r\<in>set rows. r \<noteq> []))))"
proof (cases eng rule: run_cases)
  case (connect_fails msg)
  then show ?thesis
    by (simp add: exit_status_def releases_def events_def run_connect_fails)
next
  case (query_fails msg)
  then show ?thesis
    by (simp add: exit_status_def releases_def events_def run_query_fails)
next
  case (rows_good rows)
  then show ?thesis
    by (simp add: exit_status_def releases_def events_def run_rows_good count_close_prints)
next
  case (rows_bad rows)
  then show ?thesis
    by (simp add: exit_status_def releases_def events_def run_rows_bad [OF rows_bad]
        count_close_prints)
qed

text \<open>The theorem at the engine with the options \<^verbatim>\<open>THREADSAFE\<close> and \<^verbatim>\<open>ENABLE_FTS5\<close>.\<close>

theorem release_only_on_success_witness:
  "exit_status [] (engine_of None (Inr [[Text ''THREADSAFE''], [Text ''ENABLE_FTS5'']])) = 0 \<and>
   releases [] (engine_of None (Inr [[Text ''THREADSAFE''], [Text ''ENABLE_FTS5'']])) = 1 \<and>
   last (events [] (engine_of None (Inr [[Text ''THREADSAFE''], [Text ''ENABLE_FTS5'']]))) = EvClose"
proof -
  have ok: "exit_status [] (engine_of None (Inr [[Text ''THREADSAFE''], [Text ''ENABLE_FTS5'']])) = 0"
    by (simp add: script_defs)
  from ok release_only_on_success
    [of "[]" "engine_of None (Inr [[Text ''THREADSAFE''], [Text ''ENABLE_FTS5'']])"]
  show ?thesis by simp
qed

text \<open>
  C1 as stated fails: when the query raises, the run ends with status 1 and the
  connection has been released zero times, not once.
\<close>

theorem release_missing_when_query_fails:
  "releases [] (engine_of None (Inl ''query rejected'')) = 0 \<and>
   exit_status [] (engine_of None (Inl ''query rejected'')) = 1"
  by (simp add: script_defs)

subsection \<open>What is printed\<close>

text \<open>
  C2. The engine answers with rows of at least one field each. For every such sequence
  of rows the characters written to standard output are, row after row in the order of
  the rows, field 0 of the row (as the f-string formats it: the text itself for a text
  field) followed by one newline, and nothing else: no header, no summary. Read as
  lines, that is exactly one line per row holding exactly that field, whenever no field 0
  itself holds a newline (no line can hold one).
\<close>

theorem one_line_per_row:
  assumes "connect_response eng '':memory:'' = None"
    and "execute_response eng ''PRAGMA compile_options;'' = Inr rows"
    and "\<forall>r\<in>set rows. r \<noteq> []"
  shows "stdout_text argv eng = concat (map (\<lambda>r. py_format (hd r) @ [newline]) rows) \<and>
         ((\<forall>r\<in>set rows. newline \<notin> set (py_format (hd r))) \<longrightarrow>
            stdout_lines argv eng = map (\<lambda>r. py_format (hd r)) rows \<and>
            length (stdout_lines argv eng) = length rows)"
proof -
  have written: "stdout_text argv eng = concat (map (\<lambda>s. s @ [newline]) (map (\<lambda>r. py_format (hd r)) rows))"
    by (simp only: stdout_text_stdout stdout_rows_good [OF assms])
  have "stdout_lines argv eng = map (\<lambda>r. py_format (hd r)) rows"
    if "\<forall>r\<in>set rows. newline \<notin> set (py_format (hd r))"
  proof -
    from that have "\<forall>s\<in>set (map (\<lambda>r. py_format (hd r)) rows). newline \<notin> set s"
      by simp
    from lines_of_written [OF this] show ?thesis
      by (simp only: stdout_lines_def written)
  qed
  with written show ?thesis
    by (simp add: comp_def)
qed

text \<open>
  The theorem at the engine with the options \<^verbatim>\<open>THREADSAFE\<close> and \<^verbatim>\<open>ENABLE_FTS5\<close>: two
  lines, in that order.
\<close>

theorem one_line_per_row_witness:
  "stdout_text [] (engine_of None (Inr [[Text ''THREADSAFE''], [Text ''ENABLE_FTS5'']]))
     = ''THREADSAFE'' @ [newline] @ ''ENABLE_FTS5'' @ [newline] \<and>
   stdout_lines [] (engine_of None (Inr [[Text ''THREADSAFE''], [Text ''ENABLE_FTS5'']]))
     = [''THREADSAFE'', ''ENABLE_FTS5'']"
proof -
  have c: "connect_response (engine_of None (Inr [[Text ''THREADSAFE''], [Text ''ENABLE_FTS5'']]))
             '':memory:'' = None"
    by (simp add: engine_of_def)
  have q: "execute_response (engine_of None (Inr [[Text ''THREADSAFE''], [Text ''ENABLE_FTS5'']]))
             ''PRAGMA compile_options;'' = Inr [[Text ''THREADSAFE''], [Text ''ENABLE_FTS5'']]"
    by (simp add: engine_of_def)
  have f: "\<forall>r\<in>set [[Text ''THREADSAFE''], [Text ''ENABLE_FTS5'']]. r \<noteq> []"
    by simp
  have n: "\<forall>r\<in>set [[Text ''THREADSAFE''], [Text ''ENABLE_FTS5'']]. newline \<notin> set (py_format (hd r))"
    by (simp add: newline_def)
  from one_line_per_row [OF c q f, of "[]"] n show ?thesis
    by simp
qed

text \<open>
  C3. The engine answers with rows of at least one field each. Then every run fetches at
  most once and prints nothing before that fetch, and the one call of the lister returns
  all rows of the answer: all rows are there before the first line is printed. When an
  error occurs (exit status not 0) nothing has been printed; when none occurs the full
  list has been printed. There is no run with part of the list.
\<close>

theorem fetch_then_print_all_or_nothing:
  assumes "\<forall>rows. execute_response eng ''PRAGMA compile_options;'' = Inr rows
             \<longrightarrow> (\<forall>r\<in>set rows. r \<noteq> [])"
  shows "count_list (events argv eng) EvFetchall \<le> 1 \<and>
         stdout_of (takeWhile (\<lambda>e. e \<noteq> EvFetchall) (events argv eng)) = [] \<and>
         (\<forall>rows cur w. execute_response eng ''PRAGMA compile_options;'' = Inr rows
            \<longrightarrow> fst (get_compile_options eng cur w) = Inr rows) \<and>
         (exit_status argv eng \<noteq> 0 \<longrightarrow> stdout argv eng = [] \<and> stdout_text argv eng = []) \<and>
         (exit_status argv eng = 0 \<longrightarrow>
            (\<exists>rows. execute_response eng ''PRAGMA compile_options;'' = Inr rows \<and>
               stdout argv eng = map (\<lambda>r. py_format (hd r)) rows \<and>
               stdout_text argv eng = concat (map (\<lambda>r. py_format (hd r) @ [newline]) rows)))"
proof -
  have lister: "\<forall>rows cur w. execute_response eng ''PRAGMA compile_options;'' = Inr rows
            \<longrightarrow> fst (get_compile_options eng cur w) = Inr rows"
    by (simp add: get_compile_options_rows)
  show ?thesis
  proof (cases eng rule: run_cases)
    case (connect_fails msg)
    then show ?thesis
      using lister by (simp add: run_obs stdout_text_def stdout_text_of_def run_connect_fails)
  next
    case (query_fails msg)
    then show ?thesis
      using lister by (simp add: run_obs stdout_text_def stdout_text_of_def run_query_fails)
  next
    case (rows_good rows)
    then show ?thesis
      using lister
      by (simp add: run_obs stdout_text_def stdout_text_of_def run_rows_good stdout_of_append
          stdout_of_prints count_fetch_prints comp_def)
  next
    case (rows_bad rows)
    with assms show ?thesis
      by blast
  qed
qed

text \<open>
  The theorem at an engine with two options, and at an engine that rejects the query.
\<close>

theorem fetch_then_print_all_or_nothing_witness:
  "count_list (events [] (engine_of None (Inr [[Text ''THREADSAFE''], [Text ''ENABLE_FTS5'']])))
     EvFetchall \<le> 1 \<and>
   exit_status [] (engine_of None (Inr [[Text ''THREADSAFE''], [Text ''ENABLE_FTS5'']])) = 0 \<and>
   stdout [] (engine_of None (Inr [[Text ''THREADSAFE''], [Text ''ENABLE_FTS5'']]))
     = [''THREADSAFE'', ''ENABLE_FTS5''] \<and>
   exit_status [] (engine_of None (Inl ''query rejected'')) = 1 \<and>
   stdout_text [] (engine_of None (Inl ''query rejected'')) = []"
proof -
  have a: "\<forall>rows. execute_response (engine_of None (Inr [[Text ''THREADSAFE''], [Text ''ENABLE_FTS5'']]))
              ''PRAGMA compile_options;'' = Inr rows \<longrightarrow> (\<forall>r\<in>set rows. r \<noteq> [])"
    by (simp add: engine_of_def)
  have b: "\<forall>rows. execute_response (engine_of None (Inl ''query rejected''))
              ''PRAGMA compile_options;'' = Inr rows \<longrightarrow> (\<forall>r\<in>set rows. r \<noteq> [])"
    by (simp add: engine_of_def)
  have ok: "exit_status [] (engine_of None (Inr [[Text ''THREADSAFE''], [Text ''ENABLE_FTS5'']])) = 0"
    by (simp add: script_defs)
  have ko: "exit_status [] (engine_of None (Inl ''query rejected'')) = 1"
    by (simp add: script_defs)
  have q: "execute_response (engine_of None (Inr [[Text ''THREADSAFE''], [Text ''ENABLE_FTS5'']]))
             ''PRAGMA compile_options;'' = Inr [[Text ''THREADSAFE''], [Text ''ENABLE_FTS5'']]"
    by (simp add: engine_of_def)
  from fetch_then_print_all_or_nothing [OF a, of "[]"] fetch_then_print_all_or_nothing [OF b, of "[]"]
    ok ko q
  show ?thesis by simp
qed

subsection \<open>Failure to connect, and an engine without options\<close>

text \<open>
  C4. When opening \<^verbatim>\<open>:memory:\<close> raises, the exit status is not 0, the error stream
  holds the diagnostic of that exception, and standard output is empty.
\<close>

theorem connect_failure_prints_nothing:
  assumes "connect_response eng '':memory:'' = Some msg"
  shows "exit_status argv eng \<noteq> 0 \<and> stderr argv eng = [Sqlite3Error msg] \<and> stdout argv eng = []"
  by (simp add: run_obs run_connect_fails [OF assms])

text \<open>
  The theorem at an engine that cannot open the database.
\<close>

theorem connect_failure_prints_nothing_witness:
  "connect_response (engine_of (Some ''unable to open database file'') (Inr [[Text ''THREADSAFE'']]))
      '':memory:'' = Some ''unable to open database file'' \<and>
   exit_status [] (engine_of (Some ''unable to open database file'') (Inr [[Text ''THREADSAFE'']])) \<noteq> 0 \<and>
   stderr [] (engine_of (Some ''unable to open database file'') (Inr [[Text ''THREADSAFE'']]))
     = [Sqlite3Error ''unable to open database file''] \<and>
   stdout [] (engine_of (Some ''unable to open database file'') (Inr [[Text ''THREADSAFE'']])) = []"
proof -
  have c: "connect_response (engine_of (Some ''unable to open database file'') (Inr [[Text ''THREADSAFE'']]))
      '':memory:'' = Some ''unable to open database file''"
    by (simp add: engine_of_def)
  from connect_failure_prints_nothing [OF c, of "[]"] c show ?thesis by simp
qed

text \<open>
  C5. When the query yields no rows, \<open>get_compile_options\<close> returns the empty
  sequence, nothing is printed and the exit status is 0.
\<close>

theorem no_options_no_output:
  assumes "connect_response eng '':memory:'' = None"
    and "execute_response eng ''PRAGMA compile_options;'' = Inr []"
  shows "fst (get_compile_options eng cur w) = Inr [] \<and> stdout argv eng = [] \<and>
         exit_status argv eng = 0"
proof -
  have "\<forall>r\<in>set ([] :: row list). r \<noteq> []" by simp
  from run_rows_good [OF assms this] show ?thesis
    by (simp add: run_obs get_compile_options_rows [OF assms(2)])
qed

text \<open>
  The theorem at the engine without options.
\<close>

theorem no_options_no_output_witness:
  "connect_response (engine_of None (Inr [])) '':memory:'' = None \<and>
   execute_response (engine_of None (Inr [])) ''PRAGMA compile_options;'' = Inr [] \<and>
   fst (get_compile_options (engine_of None (Inr [])) (Cursor (Connection '':memory:'')) init_world)
     = Inr [] \<and>
   stdout [] (engine_of None (Inr [])) = [] \<and>
   exit_status [] (engine_of None (Inr [])) = 0"
proof -
  have c: "connect_response (engine_of None (Inr [])) '':memory:'' = None"
    by (simp add: engine_of_def)
  have q: "execute_response (engine_of None (Inr [])) ''PRAGMA compile_options;'' = Inr []"
    by (simp add: engine_of_def)
  from no_options_no_output [OF c q, of "Cursor (Connection '':memory:'')" init_world "[]"] c q
  show ?thesis by simp
qed

subsection \<open>What the output depends on\<close>

text \<open>
  C6. Two engines whose row sequences have the same length and agree, row by row, on
  what the subscript \<^verbatim>\<open>[0]\<close> gives (the same field 0, or no field in both) lead to the
  same standard output and the same exit status, whatever the other fields are.
\<close>

theorem only_first_field_matters:
  assumes "connect_response e1 '':memory:'' = connect_response e2 '':memory:''"
    and "execute_response e1 ''PRAGMA compile_options;'' = Inr rows1"
    and "execute_response e2 ''PRAGMA compile_options;'' = Inr rows2"
    and "length rows1 = length rows2"
    and "\<forall>i<length rows1. row_getitem (rows1 ! i) 0 = row_getitem (rows2 ! i) 0"
  shows "stdout argv e1 = stdout argv e2 \<and> exit_status argv e1 = exit_status argv e2"
proof -
  have firsts: "map (\<lambda>r. row_getitem r 0) rows1 = map (\<lambda>r. row_getitem r 0) rows2"
    using assms(4,5) by (simp add: list_eq_iff_nth_eq)
  have "main e1 w = main e2 w" for w
  proof (cases "connect_response e2 '':memory:''")
    case (Some msg)
    with assms(1) show ?thesis
      by (simp add: main_connect_fails)
  next
    case None
    with assms(1) have c1: "connect_response e1 '':memory:'' = None"
      by simp
    show ?thesis
      by (simp only: main_after_query [OF c1 assms(2)] main_after_query [OF None assms(3)]
          print_each_first_fields [OF firsts])
  qed
  then show ?thesis
    by (simp add: run_obs run_script_def module_body_def)
qed

text \<open>
  The theorem at two row sequences that differ in their other fields only.
\<close>

theorem only_first_field_matters_witness:
  "length [[Text ''THREADSAFE'', Integer 1], [Text ''ENABLE_FTS5'']]
     = length [[Text ''THREADSAFE''], [Text ''ENABLE_FTS5'', Null, Text ''x'']] \<and>
   stdout [] (engine_of None (Inr [[Text ''THREADSAFE'', Integer 1], [Text ''ENABLE_FTS5'']]))
     = stdout [] (engine_of None (Inr [[Text ''THREADSAFE''], [Text ''ENABLE_FTS5'', Null, Text ''x'']])) \<and>
   stdout [] (engine_of None (Inr [[Text ''THREADSAFE''], [Text ''ENABLE_FTS5'', Null, Text ''x'']]))
     = [''THREADSAFE'', ''ENABLE_FTS5'']"
proof -
  have c: "connect_response (engine_of None q1) '':memory:''
             = connect_response (engine_of None q2) '':memory:''" for q1 q2
    by (simp add: engine_of_def)
  have q: "execute_response (engine_of None q) ''PRAGMA compile_options;'' = q" for q
    by (simp add: engine_of_def)
  have l: "length [[Text ''THREADSAFE'', Integer 1], [Text ''ENABLE_FTS5'']]
     = length [[Text ''THREADSAFE''], [Text ''ENABLE_FTS5'', Null, Text ''x'']]"
    by simp
  have f: "\<forall>i<length [[Text ''THREADSAFE'', Integer 1], [Text ''ENABLE_FTS5'']].
      row_getitem ([[Text ''THREADSAFE'', Integer 1], [Text ''ENABLE_FTS5'']] ! i) 0
        = row_getitem ([[Text ''THREADSAFE''], [Text ''ENABLE_FTS5'', Null, Text ''x'']] ! i) 0"
    by (simp add: row_getitem_def less_Suc_eq nth_Cons')
  have s: "stdout [] (engine_of None (Inr [[Text ''THREADSAFE''], [Text ''ENABLE_FTS5'', Null, Text ''x'']]))
     = [''THREADSAFE'', ''ENABLE_FTS5'']"
    by (simp add: script_defs)
  from only_first_field_matters [OF c q q l f, of "[]"] l s show ?thesis by simp
qed

text \<open>
  C7. Calling \<open>get_compile_options\<close> twice in succession on the same cursor, the second
  call in the world the first one left, returns the same result; and a run against an
  engine that gives the same two answers (to the connect and to the query) has the same
  standard output and exit status.
\<close>

theorem lister_deterministic:
  assumes "get_compile_options eng cur w = (r1, w1)"
    and "get_compile_options eng cur w1 = (r2, w2)"
    and "connect_response eng' '':memory:'' = connect_response eng '':memory:''"
    and "execute_response eng' ''PRAGMA compile_options;''
           = execute_response eng ''PRAGMA compile_options;''"
  shows "r2 = r1 \<and> stdout argv eng' = stdout argv eng \<and>
         exit_status argv eng' = exit_status argv eng"
proof -
  have "fst (get_compile_options eng cur v) = fst (get_compile_options eng cur v')" for v v'
    by (simp add: get_compile_options_def cursor_execute_def cursor_fetchall_def emit_def
        split: sum.splits)
  from this [of w1 w] assms(1,2) have same: "r2 = r1"
    by simp
  have conn: "sqlite3_connect eng' '':memory:'' = sqlite3_connect eng '':memory:''"
    by (intro ext) (simp add: sqlite3_connect_def assms(3))
  have lister: "get_compile_options eng' = get_compile_options eng"
    by (intro ext) (simp add: get_compile_options_def cursor_execute_def assms(4))
  have "main eng' v = main eng v" for v
    unfolding main_def conn lister ..
  with same show ?thesis
    by (simp add: run_obs run_script_def module_body_def)
qed

text \<open>
  The theorem at the engine with two options: two calls in succession, and a second
  engine that gives the same answers.
\<close>

theorem lister_deterministic_witness:
  "get_compile_options (engine_of None (Inr [[Text ''THREADSAFE''], [Text ''ENABLE_FTS5'']]))
     (Cursor (Connection '':memory:'')) init_world
     = (Inr [[Text ''THREADSAFE''], [Text ''ENABLE_FTS5'']],
        \<lparr>trace = [EvExecute ''PRAGMA compile_options;'', EvFetchall], pending = []\<rparr>) \<and>
   get_compile_options (engine_of None (Inr [[Text ''THREADSAFE''], [Text ''ENABLE_FTS5'']]))
     (Cursor (Connection '':memory:''))
     \<lparr>trace = [EvExecute ''PRAGMA compile_options;'', EvFetchall], pending = []\<rparr>
     = (Inr [[Text ''THREADSAFE''], [Text ''ENABLE_FTS5'']],
        \<lparr>trace = [EvExecute ''PRAGMA compile_options;'', EvFetchall,
                   EvExecute ''PRAGMA compile_options;'', EvFetchall], pending = []\<rparr>) \<and>
   stdout [] \<lparr>connect_response = (\<lambda>db. None),
              execute_response = (\<lambda>sql. Inr [[Text ''THREADSAFE''], [Text ''ENABLE_FTS5'']])\<rparr>
     = stdout [] (engine_of None (Inr [[Text ''THREADSAFE''], [Text ''ENABLE_FTS5'']])) \<and>
   stdout [] (engine_of None (Inr [[Text ''THREADSAFE''], [Text ''ENABLE_FTS5'']]))
     = [''THREADSAFE'', ''ENABLE_FTS5'']"
proof -
  have g1: "get_compile_options (engine_of None (Inr [[Text ''THREADSAFE''], [Text ''ENABLE_FTS5'']]))
     (Cursor (Connection '':memory:'')) init_world
     = (Inr [[Text ''THREADSAFE''], [Text ''ENABLE_FTS5'']],
        \<lparr>trace = [EvExecute ''PRAGMA compile_options;'', EvFetchall], pending = []\<rparr>)"
    by (simp add: script_defs)
  have g2: "get_compile_options (engine_of None (Inr [[Text ''THREADSAFE''], [Text ''ENABLE_FTS5'']]))
     (Cursor (Connection '':memory:''))
     \<lparr>trace = [EvExecute ''PRAGMA compile_options;'', EvFetchall], pending = []\<rparr>
     = (Inr [[Text ''THREADSAFE''], [Text ''ENABLE_FTS5'']],
        \<lparr>trace = [EvExecute ''PRAGMA compile_options;'', EvFetchall,
                   EvExecute ''PRAGMA compile_options;'', EvFetchall], pending = []\<rparr>)"
    by (simp add: script_defs)
  have c: "connect_response \<lparr>connect_response = (\<lambda>db. None),
              execute_response = (\<lambda>sql. Inr [[Text ''THREADSAFE''], [Text ''ENABLE_FTS5'']])\<rparr> '':memory:''
     = connect_response (engine_of None (Inr [[Text ''THREADSAFE''], [Text ''ENABLE_FTS5'']])) '':memory:''"
    by (simp add: engine_of_def)
  have q: "execute_response \<lparr>connect_response = (\<lambda>db. None),
              execute_response = (\<lambda>sql. Inr [[Text ''THREADSAFE''], [Text ''ENABLE_FTS5'']])\<rparr>
              ''PRAGMA compile_options;''
     = execute_response (engine_of None (Inr [[Text ''THREADSAFE''], [Text ''ENABLE_FTS5'']]))
         ''PRAGMA compile_options;''"
    by (simp add: engine_of_def)
  have s: "stdout [] (engine_of None (Inr [[Text ''THREADSAFE''], [Text ''ENABLE_FTS5'']]))
     = [''THREADSAFE'', ''ENABLE_FTS5'']"
    by (simp add: script_defs)
  from lister_deterministic [OF g1 g2 c q, of "[]"] g1 g2 s show ?thesis by simp
qed

subsection \<open>The identifiers are passed on\<close>



subsection \<open>The subscript without a guard\<close>

text \<open>
  C9. When the connection opens and the query yields rows, the run ends with status 0
  exactly when every row has at least one field. When a row without a field comes after
  rows that all have one, the lines of those rows are printed, fewer than there are rows,
  \<^verbatim>\<open>IndexError\<close> is reported on the error stream and the exit status is 1.
\<close>

theorem unguarded_subscript:
  assumes "connect_response eng '':memory:'' = None"
    and "execute_response eng ''PRAGMA compile_options;'' = Inr rows"
  shows "((exit_status argv eng = 0) = (\<forall>r\<in>set rows. r \<noteq> [])) \<and>
         (\<forall>pre post. rows = pre @ [] # post \<and> (\<forall>r\<in>set pre. r \<noteq> []) \<longrightarrow>
            stdout argv eng = map (\<lambda>r. py_format (hd r)) pre \<and>
            length (stdout argv eng) < length rows \<and>
            stderr argv eng = [IndexError] \<and>
            exit_status argv eng = 1)"
proof (intro conjI allI impI)
  show "(exit_status argv eng = 0) = (\<forall>r\<in>set rows. r \<noteq> [])"
  proof (cases "\<forall>r\<in>set rows. r \<noteq> []")
    case True
    then show ?thesis
      by (simp add: exit_status_def run_rows_good [OF assms])
  next
    case False
    then show ?thesis
      by (simp add: exit_status_def run_rows_bad [OF assms])
  qed
next
  fix pre post
  assume split: "rows = pre @ [] # post \<and> (\<forall>r\<in>set pre. r \<noteq> [])"
  then have bad: "\<not> (\<forall>r\<in>set rows. r \<noteq> [])"
    by simp
  from split have prefix: "takeWhile (\<lambda>r. r \<noteq> []) rows = pre"
    by (simp add: takeWhile_append2)
  note run = run_rows_bad [OF assms bad, of argv, unfolded prefix]
  show "stdout argv eng = map (\<lambda>r. py_format (hd r)) pre"
    by (simp add: run_obs run stdout_of_append stdout_of_prints)
  then show "length (stdout argv eng) < length rows"
    using split by simp
  show "stderr argv eng = [IndexError]"
    by (simp add: run_obs run stderr_of_append stderr_of_prints)
  show "exit_status argv eng = 1"
    by (simp add: run_obs run)
qed

text \<open>
  The theorem at three rows of which the second has no field.
\<close>

theorem unguarded_subscript_witness:
  "[[Text ''THREADSAFE''], [], [Text ''ENABLE_FTS5'']]
     = [[Text ''THREADSAFE'']] @ [] # [[Text ''ENABLE_FTS5'']] \<and>
   [] \<notin> set [[Text ''THREADSAFE'']] \<and>
   stdout [] (engine_of None (Inr [[Text ''THREADSAFE''], [], [Text ''ENABLE_FTS5'']]))
     = [''THREADSAFE''] \<and>
   stderr [] (engine_of None (Inr [[Text ''THREADSAFE''], [], [Text ''ENABLE_FTS5'']]))
     = [IndexError] \<and>
   exit_status [] (engine_of None (Inr [[Text ''THREADSAFE''], [], [Text ''ENABLE_FTS5'']])) = 1"
proof -
  have c: "connect_response (engine_of None (Inr [[Text ''THREADSAFE''], [], [Text ''ENABLE_FTS5'']]))
             '':memory:'' = None"
    by (simp add: engine_of_def)
  have q: "execute_response (engine_of None (Inr [[Text ''THREADSAFE''], [], [Text ''ENABLE_FTS5'']]))
             ''PRAGMA compile_options;'' = Inr [[Text ''THREADSAFE''], [], [Text ''ENABLE_FTS5'']]"
    by (simp add: engine_of_def)
  have h: "[[Text ''THREADSAFE''], [], [Text ''ENABLE_FTS5'']]
             = [[Text ''THREADSAFE'']] @ [] # [[Text ''ENABLE_FTS5'']] \<and>
           (\<forall>r\<in>set [[Text ''THREADSAFE'']]. r \<noteq> [])"
    by simp
  from unguarded_subscript [OF c q, of "[]"]
  have "\<forall>pre post. [[Text ''THREADSAFE''], [], [Text ''ENABLE_FTS5'']] = pre @ [] # post \<and>
            (\<forall>r\<in>set pre. r \<noteq> []) \<longrightarrow>
          stdout [] (engine_of None (Inr [[Text ''THREADSAFE''], [], [Text ''ENABLE_FTS5'']]))
            = map (\<lambda>r. py_format (hd r)) pre \<and>
          stderr [] (engine_of None (Inr [[Text ''THREADSAFE''], [], [Text ''ENABLE_FTS5'']]))
            = [IndexError] \<and>
          exit_status [] (engine_of None (Inr [[Text ''THREADSAFE''], [], [Text ''ENABLE_FTS5'']])) = 1"
    by blast
  then have "[[Text ''THREADSAFE''], [], [Text ''ENABLE_FTS5'']]
               = [[Text ''THREADSAFE'']] @ [] # [[Text ''ENABLE_FTS5'']] \<and>
            (\<forall>r\<in>set [[Text ''THREADSAFE'']]. r \<noteq> []) \<longrightarrow>
          stdout [] (engine_of None (Inr [[Text ''THREADSAFE''], [], [Text ''ENABLE_FTS5'']]))
            = map (\<lambda>r. py_format (hd r)) [[Text ''THREADSAFE'']] \<and>
          stderr [] (engine_of None (Inr [[Text ''THREADSAFE''], [], [Text ''ENABLE_FTS5'']]))
            = [IndexError] \<and>
          exit_status [] (engine_of None (Inr [[Text ''THREADSAFE''], [], [Text ''ENABLE_FTS5'']])) = 1"
    by (elim allE)
  with h show ?thesis by simp
qed

subsection \<open>The command line\<close>

text \<open>
  C10. The argument vector is never read: two runs with any two argument vectors
  against the same engine have the same standard output, the same exit status and the
  same trace.
\<close>

theorem arguments_never_read:
  "stdout argv1 eng = stdout argv2 eng \<and> exit_status argv1 eng = exit_status argv2 eng \<and>
   run_script argv1 eng = run_script argv2 eng"
  by (simp add: run_obs run_script_def module_body_def)

text \<open>
  The theorem at an empty argument vector and at one with two flags.
\<close>

theorem arguments_never_read_witness:
  "stdout [''--help'', ''-v'']
      (engine_of None (Inr [[Text ''THREADSAFE''], [Text ''ENABLE_FTS5'']]))
     = stdout [] (engine_of None (Inr [[Text ''THREADSAFE''], [Text ''ENABLE_FTS5'']])) \<and>
   exit_status [''--help'', ''-v'']
      (engine_of None (Inr [[Text ''THREADSAFE''], [Text ''ENABLE_FTS5'']]))
     = exit_status [] (engine_of None (Inr [[Text ''THREADSAFE''], [Text ''ENABLE_FTS5'']]))"
  using arguments_never_read [of "[''--help'', ''-v'']"
      "engine_of None (Inr [[Text ''THREADSAFE''], [Text ''ENABLE_FTS5'']])" "[]"]
  by simp

end
